theory Spec2Isabelle
  imports Complex_Main "HOL-Library.AList"
begin

section \<open>The bias analyzer for tabular data (omnixai/explainers/tabular/agnostic/bias.py)\<close>

text \<open>
  A shallow embedding of \<^verbatim>\<open>BiasAnalyzer\<close>: its two metric functions
  \<^verbatim>\<open>_dpl\<close> and \<^verbatim>\<open>_di\<close>, the batched prediction \<^verbatim>\<open>_predict\<close>,
  the group selection of \<^verbatim>\<open>explain\<close> and the constructor.

  Conventions of the embedding.
  \<^item> Python values that occur as feature values, targets, predictions and labels are
    numbers or strings. Python's \<^verbatim>\<open>==\<close> on them is HOL equality on \<open>pyval\<close>
    (\<^verbatim>\<open>1 == 1.0\<close> holds in Python, and both are \<open>Num 1\<close> here). Floating point
    numbers are embedded into the reals: rounding and NaN are not modelled.
  \<^item> The training targets are numbers, as the constructor's documentation demands (``the
    values of \<^verbatim>\<open>training_targets\<close> can only be integers or floats''): a list of reals.
  \<^item> A Python \<^verbatim>\<open>dict\<close> is an association list in insertion order; the assignment
    \<^verbatim>\<open>d[k] = v\<close> is \<open>AList.update k v d\<close> (an existing key keeps its position, a new
    key goes to the end) and a lookup is \<open>map_of d k\<close>.
  \<^item> Every \<^verbatim>\<open>assert\<close> and every exception of the source is a value \<open>Inl e\<close> of the
    result type \<open>py_error + 'a\<close>.
\<close>

subsection \<open>Values and errors\<close>

datatype pyval = Num real | Str string

text \<open>The messages of the source's assertions, with the value they name.\<close>

datatype assert_msg =
    UnsupportedMode
  | PredictFunctionIsNone
  | NoTargetColumn
  | TargetsNotIntOrFloat
  | ColumnDoesNotExist string
  | NotTwoGroups
  | FeatureDoesNotExist pyval

datatype py_error =
    AssertionError assert_msg
  | ZeroDivisionError
  | ValueError
  | IndexError
  | KeyError

type_synonym ('k, 'v) dict = "('k \<times> 'v) list"

subsection \<open>The metric functions\<close>

text \<open>Python's true division \<^verbatim>\<open>a / b\<close> of two \<^verbatim>\<open>int\<close>s (here: lengths of lists).\<close>

definition int_truediv :: "nat \<Rightarrow> nat \<Rightarrow> py_error + real" where
  "int_truediv a b = (if b = 0 then Inl ZeroDivisionError else Inr (real a / real b))"

text \<open>Python's division \<^verbatim>\<open>x / y\<close> of two \<^verbatim>\<open>float\<close>s.\<close>

definition float_truediv :: "real \<Rightarrow> real \<Rightarrow> py_error + real" where
  "float_truediv x y = (if y = 0 then Inl ZeroDivisionError else Inr (x / y))"

text \<open>The constant \<^verbatim>\<open>1e-8\<close> of \<^verbatim>\<open>_di\<close>.\<close>

definition eps :: real where
  "eps = 1 / 10 ^ 8"

text \<open>
  \<^verbatim>\<open>_dpl(targ_a, targ_b, pred_a, pred_b, labels)\<close>: the loop over \<^verbatim>\<open>labels\<close>, with the
  dictionary \<^verbatim>\<open>metrics\<close> as accumulator. The expression
  \<^verbatim>\<open>na / len(pred_a) - nb / len(pred_b)\<close> is evaluated from left to right.
\<close>

fun dpl_loop :: "'l list \<Rightarrow> 'l list \<Rightarrow> 'l list \<Rightarrow> ('l, real) dict \<Rightarrow> py_error + ('l, real) dict" where
  "dpl_loop pred_a pred_b [] metrics = Inr metrics"
| "dpl_loop pred_a pred_b (label # labels) metrics =
     (let na = length [p \<leftarrow> pred_a. p = label];
          nb = length [p \<leftarrow> pred_b. p = label]
      in case int_truediv na (length pred_a) of
           Inl e \<Rightarrow> Inl e
         | Inr qa \<Rightarrow>
             (case int_truediv nb (length pred_b) of
                Inl e \<Rightarrow> Inl e
              | Inr qb \<Rightarrow> dpl_loop pred_a pred_b labels (AList.update label (qa - qb) metrics)))"

definition dpl :: "'t list \<Rightarrow> 't list \<Rightarrow> 'l list \<Rightarrow> 'l list \<Rightarrow> 'l list \<Rightarrow> py_error + ('l, real) dict" where
  "dpl targ_a targ_b pred_a pred_b labels = dpl_loop pred_a pred_b labels []"

text \<open>\<^verbatim>\<open>_di(targ_a, targ_b, pred_a, pred_b, labels)\<close>, in the same way.\<close>

fun di_loop :: "'l list \<Rightarrow> 'l list \<Rightarrow> 'l list \<Rightarrow> ('l, real) dict \<Rightarrow> py_error + ('l, real) dict" where
  "di_loop pred_a pred_b [] metrics = Inr metrics"
| "di_loop pred_a pred_b (label # labels) metrics =
     (case int_truediv (length [p \<leftarrow> pred_a. p = label]) (length pred_a) of
        Inl e \<Rightarrow> Inl e
      | Inr qa \<Rightarrow>
          (case int_truediv (length [p \<leftarrow> pred_b. p = label]) (length pred_b) of
             Inl e \<Rightarrow> Inl e
           | Inr qb \<Rightarrow>
               (case float_truediv qb (qa + eps) of
                  Inl e \<Rightarrow> Inl e
                | Inr v \<Rightarrow> di_loop pred_a pred_b labels (AList.update label v metrics))))"

definition di :: "'t list \<Rightarrow> 't list \<Rightarrow> 'l list \<Rightarrow> 'l list \<Rightarrow> 'l list \<Rightarrow> py_error + ('l, real) dict" where
  "di targ_a targ_b pred_a pred_b labels = di_loop pred_a pred_b labels []"

text \<open>\<^verbatim>\<open>_dco\<close> is a stub (\<^verbatim>\<open>pass\<close>): it returns \<^verbatim>\<open>None\<close>.\<close>

definition dco :: "'t list \<Rightarrow> 't list \<Rightarrow> 'l list \<Rightarrow> 'l list \<Rightarrow> 'l list \<Rightarrow> ('l, real) dict option" where
  "dco targ_a targ_b pred_a pred_b labels = None"

text \<open>
  The proportion \<^verbatim>\<open>count(pred == l) / |pred|\<close> of the predictions equal to a label, as
  the specification writes \<open>qa\<close> and \<open>qb\<close>. It is used to state the properties of the
  metrics, not to define them.
\<close>

definition proportion :: "'l list \<Rightarrow> 'l \<Rightarrow> real" where
  "proportion pred l = real (length [p \<leftarrow> pred. p = l]) / real (length pred)"

subsection \<open>The tabular data container\<close>

text \<open>
  Modelled from the spec: the class \<^verbatim>\<open>Tabular\<close> (omnixai/data/tabular.py) is not part of
  the sources at hand. The specification describes a dataset as an ordered sequence of rows
  over named columns, with an optional target column, and asks of the container: the row
  count, slicing by rows, a view by column (\<^verbatim>\<open>to_pd\<close>), and the extraction and the removal
  of the target column. Every row is as long as \<open>columns\<close>.
\<close>

record tabular =
  columns :: "string list"
  rows :: "pyval list list"
  target_column :: "string option"

definition wf_tabular :: "tabular \<Rightarrow> bool" where
  "wf_tabular X = (\<forall>r \<in> set (rows X). length r = length (columns X))"

text \<open>\<^verbatim>\<open>X[i: j]\<close> for \<open>i \<le> j\<close>: Python slices stop at the end of the data.\<close>

definition slice :: "tabular \<Rightarrow> nat \<Rightarrow> nat \<Rightarrow> tabular" where
  "slice X i j = X\<lparr>rows := take (j - i) (drop i (rows X))\<rparr>"

text \<open>\<^verbatim>\<open>X.to_pd()\<close>: the data frame, a dictionary from column name to the column's values.\<close>

definition column_values :: "tabular \<Rightarrow> nat \<Rightarrow> pyval list" where
  "column_values X k = map (\<lambda>r. r ! k) (rows X)"

definition to_pd :: "tabular \<Rightarrow> (string, pyval list) dict" where
  "to_pd X = map (\<lambda>k. (columns X ! k, column_values X k)) [0..<length (columns X)]"

text \<open>
  \<^verbatim>\<open>X.get_target_column()\<close>: the values of the target column, as the numbers that the
  targets are; a cell that holds text has no such value.
\<close>

fun numbers :: "pyval list \<Rightarrow> real list" where
  "numbers [] = []"
| "numbers (Num x # vs) = x # numbers vs"
| "numbers (Str t # vs) = numbers vs"

definition get_target_column :: "tabular \<Rightarrow> real list" where
  "get_target_column X =
     (case target_column X of
        None \<Rightarrow> []
      | Some c \<Rightarrow> (case map_of (to_pd X) c of None \<Rightarrow> [] | Some vs \<Rightarrow> numbers vs))"

definition drop_nth :: "nat \<Rightarrow> 'a list \<Rightarrow> 'a list" where
  "drop_nth k xs = take k xs @ drop (Suc k) xs"

definition remove_target_column :: "tabular \<Rightarrow> tabular" where
  "remove_target_column X =
     (case target_column X of
        None \<Rightarrow> X
      | Some c \<Rightarrow>
          (case find (\<lambda>k. columns X ! k = c) [0..<length (columns X)] of
             None \<Rightarrow> X\<lparr>target_column := None\<rparr>
           | Some k \<Rightarrow>
               \<lparr>columns = drop_nth k (columns X),
                rows = map (drop_nth k) (rows X),
                target_column = None\<rparr>))"

subsection \<open>Batched prediction\<close>

text \<open>
  The prediction function maps a batch (a \<^verbatim>\<open>Tabular\<close>) to a two-dimensional array: one row
  of scores per data row (class probabilities for classification, estimated values for
  regression). A two-dimensional array is the list of its rows.
\<close>

type_synonym ndarray2 = "real list list"

type_synonym predict_fun = "tabular \<Rightarrow> ndarray2"

text \<open>
  The loop \<^verbatim>\<open>for i in range(0, n, batch_size): predictions.append(f(X[i: i + batch_size]))\<close>
  for a positive step. The list \<^verbatim>\<open>predictions\<close> is built in the order of the calls.
\<close>

function predict_loop :: "predict_fun \<Rightarrow> tabular \<Rightarrow> nat \<Rightarrow> nat \<Rightarrow> nat \<Rightarrow> ndarray2 list" where
  "predict_loop f X n batch_size i =
     (if 0 < batch_size \<and> i < n
      then f (slice X i (i + batch_size)) # predict_loop f X n batch_size (i + batch_size)
      else [])"
  by pat_completeness auto
termination
  by (relation "measure (\<lambda>(f, X, n, batch_size, i). n - i)") auto

text \<open>
  \<^verbatim>\<open>np.concatenate(predictions, axis=0)\<close>: fails on an empty list of arrays and when the
  arrays do not agree in their number of columns. (An array without rows is taken to agree
  with every number of columns.)
\<close>

definition concatenate :: "ndarray2 list \<Rightarrow> py_error + ndarray2" where
  "concatenate arrays =
     (if arrays = [] then Inl ValueError
      else if \<exists>r \<in> set (concat arrays). length r \<noteq> length (hd (concat arrays)) then Inl ValueError
      else Inr (concat arrays))"

text \<open>
  \<^verbatim>\<open>np.argmax\<close> of one row: a scan from the left that moves to a later index only for a
  strictly greater score.
\<close>

fun argmax_scan :: "real list \<Rightarrow> nat \<Rightarrow> nat \<Rightarrow> real \<Rightarrow> nat" where
  "argmax_scan [] i best_i best = best_i"
| "argmax_scan (x # xs) i best_i best =
     (if best < x then argmax_scan xs (Suc i) i x else argmax_scan xs (Suc i) best_i best)"

definition argmax :: "real list \<Rightarrow> nat" where
  "argmax r = argmax_scan (tl r) 1 0 (hd r)"

text \<open>\<^verbatim>\<open>np.argmax(z, axis=1)\<close>: fails when the rows have no column.\<close>

definition argmax_axis1 :: "ndarray2 \<Rightarrow> py_error + nat list" where
  "argmax_axis1 z = (if \<exists>r \<in> set z. r = [] then Inl ValueError else Inr (map argmax z))"

text \<open>
  \<^verbatim>\<open>_predict(X, batch_size)\<close>. \<^verbatim>\<open>range(0, n, 0)\<close> raises \<^verbatim>\<open>ValueError\<close>, and a negative
  step gives the empty range.
\<close>

definition predict :: "predict_fun \<Rightarrow> string \<Rightarrow> tabular \<Rightarrow> int \<Rightarrow> py_error + pyval list" where
  "predict f mode X batch_size =
     (if batch_size = 0 then Inl ValueError
      else
        let n = length (rows X);
            predictions = (if batch_size < 0 then [] else predict_loop f X n (nat batch_size) 0)
        in case concatenate predictions of
             Inl e \<Rightarrow> Inl e
           | Inr z \<Rightarrow>
               if mode = ''regression'' then Inr (map Num (concat z))
               else (case argmax_axis1 z of
                       Inl e \<Rightarrow> Inl e
                     | Inr idx \<Rightarrow> Inr (map (\<lambda>i. Num (real i)) idx)))"

text \<open>
  The batches as the specification describes them: successive batches of \<open>batch_size\<close> rows
  that span the data in the original row order. There are \<open>\<lceil>n / batch_size\<rceil>\<close> of them.
\<close>

definition successive_batches :: "tabular \<Rightarrow> nat \<Rightarrow> tabular list" where
  "successive_batches X batch_size =
     map (\<lambda>k. slice X (k * batch_size) (k * batch_size + batch_size))
       [0..<(length (rows X) + batch_size - 1) div batch_size]"

text \<open>A prediction function that scores every row on its own, whatever the batch.\<close>

definition rowwise :: "predict_fun \<Rightarrow> (string list \<Rightarrow> pyval list \<Rightarrow> real list) \<Rightarrow> bool" where
  "rowwise f g = (\<forall>X. f X = map (g (columns X)) (rows X))"

subsection \<open>The analyzer and its constructor\<close>

text \<open>The fields \<^verbatim>\<open>self.mode\<close>, \<^verbatim>\<open>self.data\<close>, ... of the analyzer.\<close>

record bias_analyzer =
  self_mode :: string
  self_data :: "(string, pyval list) dict"
  self_predict_function :: predict_fun
  self_targs :: "real list"
  self_preds :: "pyval list"
  self_all_labels :: "pyval list"

text \<open>
  The check of the target column,
  \<^verbatim>\<open>training_data.to_pd(copy=False)[training_data.target_column] in [np.int, ..., np.float64]\<close>.
  Its left operand is the column itself (a pandas \<^verbatim>\<open>Series\<close>), not the column's
  \<^verbatim>\<open>dtype\<close>. Python's \<^verbatim>\<open>in\<close> on a list compares the operand with the list's elements one
  after the other by \<^verbatim>\<open>==\<close> and takes the truth value of each comparison. On a
  \<^verbatim>\<open>Series\<close>, \<^verbatim>\<open>==\<close> compares element by element and gives a \<^verbatim>\<open>Series\<close> of booleans,
  and the truth value of a \<^verbatim>\<open>Series\<close> raises \<^verbatim>\<open>ValueError\<close> (it is ambiguous).
\<close>

datatype np_type = np_int | np_int32 | np_int64 | np_float | np_float32 | np_float64

definition series_eq :: "pyval list \<Rightarrow> np_type \<Rightarrow> bool list" where
  "series_eq series t = map (\<lambda>v. False) series"

definition series_bool :: "bool list \<Rightarrow> py_error + bool" where
  "series_bool s = Inl ValueError"

fun series_in :: "pyval list \<Rightarrow> np_type list \<Rightarrow> py_error + bool" where
  "series_in series [] = Inr False"
| "series_in series (t # ts) =
     (case series_bool (series_eq series t) of
        Inl e \<Rightarrow> Inl e
      | Inr b \<Rightarrow> if b then Inr True else series_in series ts)"

text \<open>The branch \<^verbatim>\<open>if training_targets is None\<close> of the constructor.\<close>

definition resolve_targets :: "tabular \<Rightarrow> real list option \<Rightarrow> py_error + (real list \<times> tabular)" where
  "resolve_targets training_data training_targets =
     (case training_targets of
        Some t \<Rightarrow> Inr (t, training_data)
      | None \<Rightarrow>
          (case target_column training_data of
             None \<Rightarrow> Inl (AssertionError NoTargetColumn)
           | Some c \<Rightarrow>
               if c = [] then Inl (AssertionError NoTargetColumn)
               else (case map_of (to_pd training_data) c of
                       None \<Rightarrow> Inl KeyError
                     | Some series \<Rightarrow>
                         (case series_in series [np_int, np_int32, np_int64, np_float, np_float32, np_float64] of
                            Inl e \<Rightarrow> Inl e
                          | Inr b \<Rightarrow>
                              if b then Inr (get_target_column training_data,
                                             remove_target_column training_data)
                              else Inl (AssertionError TargetsNotIntOrFloat)))))"

text \<open>
  \<^verbatim>\<open>self.targs.astype(int)\<close>: the cast to 64-bit integers truncates towards zero; a value
  beyond the range of a 64-bit integer wraps around modulo \<open>2 ^ 64\<close> (for a floating point
  value that far out, what numpy returns depends on the platform).
\<close>

definition int64_of :: "real \<Rightarrow> int" where
  "int64_of x = ((if 0 \<le> x then \<lfloor>x\<rfloor> else \<lceil>x\<rceil>) + 2 ^ 63) mod 2 ^ 64 - 2 ^ 63"

definition astype_int :: "real list \<Rightarrow> int list" where
  "astype_int xs = map int64_of xs"

text \<open>
  \<^verbatim>\<open>list(set(...))\<close> of integers: the distinct values. Python leaves the order in which a
  set is enumerated open; CPython enumerates a set of small non-negative integers in
  increasing order, and the increasing order is taken here. Only the order of the keys in
  the printed result depends on it.
\<close>

definition list_of_set :: "int list \<Rightarrow> int list" where
  "list_of_set xs = sort (remdups xs)"

definition init ::
  "tabular \<Rightarrow> predict_fun option \<Rightarrow> string \<Rightarrow> real list option \<Rightarrow> int option \<Rightarrow> py_error + bias_analyzer" where
  "init training_data predict_function mode training_targets batch_size =
     (if mode \<noteq> ''classification'' \<and> mode \<noteq> ''regression'' then Inl (AssertionError UnsupportedMode)
      else case predict_function of
        None \<Rightarrow> Inl (AssertionError PredictFunctionIsNone)
      | Some f \<Rightarrow>
          (case resolve_targets training_data training_targets of
             Inl e \<Rightarrow> Inl e
           | Inr (training_targets, training_data) \<Rightarrow>
               (case predict f mode training_data (case batch_size of None \<Rightarrow> 64 | Some b \<Rightarrow> b) of
                  Inl e \<Rightarrow> Inl e
                | Inr preds \<Rightarrow>
                    Inr \<lparr>self_mode = mode, self_data = to_pd training_data,
                         self_predict_function = f, self_targs = training_targets,
                         self_preds = preds,
                         self_all_labels =
                           (if mode = ''classification''
                            then map (\<lambda>i. Num (of_int i)) (list_of_set (astype_int training_targets))
                            else map Num training_targets)\<rparr>)))"

subsection \<open>Group selection and \<^verbatim>\<open>explain\<close>\<close>

text \<open>
  The argument \<^verbatim>\<open>feature_value_or_groups\<close> is a single value, or a list or tuple (of lists
  of values). The argument \<^verbatim>\<open>target_value_or_threshold\<close> is \<^verbatim>\<open>None\<close>, one label, or a
  list of labels.
\<close>

datatype feature_arg = Single pyval | Groups "pyval list list"

datatype label_arg = NoLabels | OneLabel pyval | Labels "pyval list"

text \<open>\<^verbatim>\<open>self.targs[group]\<close>: indexing an array by a list of indices.\<close>

definition fancy_index :: "'a list \<Rightarrow> nat list \<Rightarrow> py_error + 'a list" where
  "fancy_index xs idx =
     (if \<forall>i \<in> set idx. i < length xs then Inr (map (\<lambda>i. xs ! i) idx) else Inl IndexError)"

definition get_labels ::
  "bias_analyzer \<Rightarrow> nat list \<Rightarrow> nat list \<Rightarrow> label_arg \<Rightarrow>
     py_error + (real list \<times> real list \<times> pyval list \<times> pyval list \<times> pyval list)" where
  "get_labels self group_a group_b labels =
     (let labels = (case labels of NoLabels \<Rightarrow> self_all_labels self | OneLabel l \<Rightarrow> [l] | Labels ls \<Rightarrow> ls)
      in case fancy_index (self_targs self) group_a of
           Inl e \<Rightarrow> Inl e
         | Inr targ_a \<Rightarrow>
      (case fancy_index (self_targs self) group_b of
           Inl e \<Rightarrow> Inl e
         | Inr targ_b \<Rightarrow>
      (case fancy_index (self_preds self) group_a of
           Inl e \<Rightarrow> Inl e
         | Inr pred_a \<Rightarrow>
      (case fancy_index (self_preds self) group_b of
           Inl e \<Rightarrow> Inl e
         | Inr pred_b \<Rightarrow> Inr (targ_a, targ_b, pred_a, pred_b, labels)))))"

text \<open>
  The \<^verbatim>\<open>defaultdict(list)\<close> from feature value to row indices, filled by
  \<^verbatim>\<open>for i, feat in enumerate(column): feat_value2idx[feat].append(i)\<close>.
\<close>

definition getitem_default :: "('k, 'a list) dict \<Rightarrow> 'k \<Rightarrow> 'a list" where
  "getitem_default d k = (case map_of d k of None \<Rightarrow> [] | Some l \<Rightarrow> l)"

fun feat_value2idx_loop :: "nat \<Rightarrow> pyval list \<Rightarrow> (pyval, nat list) dict \<Rightarrow> (pyval, nat list) dict" where
  "feat_value2idx_loop i [] d = d"
| "feat_value2idx_loop i (feat # feats) d =
     feat_value2idx_loop (Suc i) feats (AList.update feat (getitem_default d feat @ [i]) d)"

text \<open>\<^verbatim>\<open>for feat in group: assert feat in feat_value2idx\<close>.\<close>

fun assert_feats :: "pyval list \<Rightarrow> (pyval, nat list) dict \<Rightarrow> py_error + unit" where
  "assert_feats [] d = Inr ()"
| "assert_feats (feat # feats) d =
     (if map_of d feat \<noteq> None then assert_feats feats d
      else Inl (AssertionError (FeatureDoesNotExist feat)))"

fun check_features :: "feature_arg \<Rightarrow> (pyval, nat list) dict \<Rightarrow> py_error + unit" where
  "check_features (Groups gs) d =
     (case assert_feats (gs ! 0) d of Inl e \<Rightarrow> Inl e | Inr u \<Rightarrow> assert_feats (gs ! 1) d)"
| "check_features (Single v) d =
     (if map_of d v \<noteq> None then Inr () else Inl (AssertionError (FeatureDoesNotExist v)))"

text \<open>The two groups of row indices (lines 109 to 119 of the source).\<close>

fun groups :: "feature_arg \<Rightarrow> (pyval, nat list) dict \<Rightarrow> nat list \<times> nat list" where
  "groups (Groups gs) d =
     (concat (map (getitem_default d) (gs ! 0)), concat (map (getitem_default d) (gs ! 1)))"
| "groups (Single v) d =
     (getitem_default d v, concat (map snd [kv \<leftarrow> d. fst kv \<noteq> v]))"

type_synonym metrics = "(pyval, real) dict"

type_synonym result = "(string, metrics) dict"

text \<open>The body of \<^verbatim>\<open>explain\<close> up to the dictionary \<^verbatim>\<open>res\<close>.\<close>

definition explain_res :: "bias_analyzer \<Rightarrow> string \<Rightarrow> feature_arg \<Rightarrow> label_arg \<Rightarrow> py_error + result" where
  "explain_res self feature_column feature_value_or_groups target_value_or_threshold =
     (case map_of (self_data self) feature_column of
        None \<Rightarrow> Inl (AssertionError (ColumnDoesNotExist feature_column))
      | Some column \<Rightarrow>
          if (case feature_value_or_groups of Groups gs \<Rightarrow> length gs \<noteq> 2 | Single v \<Rightarrow> False)
          then Inl (AssertionError NotTwoGroups)
          else
            let feat_value2idx = feat_value2idx_loop 0 column []
            in case check_features feature_value_or_groups feat_value2idx of
                 Inl e \<Rightarrow> Inl e
               | Inr u \<Rightarrow>
                   (case groups feature_value_or_groups feat_value2idx of
                      (group_a, group_b) \<Rightarrow>
                   (case get_labels self group_a group_b target_value_or_threshold of
                      Inl e \<Rightarrow> Inl e
                    | Inr (targ_a, targ_b, pred_a, pred_b, labels) \<Rightarrow>
                   (case dpl targ_a targ_b pred_a pred_b labels of
                      Inl e \<Rightarrow> Inl e
                    | Inr m_dpl \<Rightarrow>
                   (case di targ_a targ_b pred_a pred_b labels of
                      Inl e \<Rightarrow> Inl e
                    | Inr m_di \<Rightarrow>
                        Inr (AList.update ''DI'' m_di (AList.update ''DPL'' m_dpl [])))))))"

text \<open>
  What a call of \<^verbatim>\<open>explain\<close> leaves behind: the values it printed and the value it
  returned. The body ends with \<^verbatim>\<open>print(res)\<close> and has no \<^verbatim>\<open>return\<close> statement, so
  the call returns Python's \<^verbatim>\<open>None\<close>, which is \<open>None\<close> here.
\<close>

record explain_outcome =
  printed :: "result list"
  returned :: "result option"

definition explain :: "bias_analyzer \<Rightarrow> string \<Rightarrow> feature_arg \<Rightarrow> label_arg \<Rightarrow> py_error + explain_outcome" where
  "explain self feature_column feature_value_or_groups target_value_or_threshold =
     (case explain_res self feature_column feature_value_or_groups target_value_or_threshold of
        Inl e \<Rightarrow> Inl e
      | Inr res \<Rightarrow> Inr \<lparr>printed = [res], returned = None\<rparr>)"

subsection \<open>A concrete scenario\<close>

text \<open>
  The scenario of the specification's testable properties: four rows with the feature
  column \<^verbatim>\<open>["X", "X", "Y", "Y"]\<close>, the integer targets \<^verbatim>\<open>[0, 1, 0, 1]\<close> and a perfect
  classifier. A prediction function sees the features only, so the data carries a second
  column from which the classifier reads the class.
\<close>

definition scenario_data :: tabular where
  "scenario_data =
     \<lparr>columns = [''feat'', ''score''],
      rows = [[Str ''X'', Num 0], [Str ''X'', Num 1], [Str ''Y'', Num 0], [Str ''Y'', Num 1]],
      target_column = None\<rparr>"

definition scenario_targets :: "real list" where
  "scenario_targets = [0, 1, 0, 1]"

definition scenario_predict :: predict_fun where
  "scenario_predict X = map (\<lambda>r. if r ! 1 = Num 0 then [1, 0] else [0, 1]) (rows X)"

text \<open>The analyzer that the constructor builds for the scenario (see \<open>scenario_init\<close>).\<close>

definition scenario_analyzer :: bias_analyzer where
  "scenario_analyzer =
     \<lparr>self_mode = ''classification'',
      self_data = [(''feat'', [Str ''X'', Str ''X'', Str ''Y'', Str ''Y'']),
                   (''score'', [Num 0, Num 1, Num 0, Num 1])],
      self_predict_function = scenario_predict,
      self_targs = [0, 1, 0, 1],
      self_preds = [Num 0, Num 1, Num 0, Num 1],
      self_all_labels = [Num 0, Num 1]\<rparr>"

section \<open>Properties of the metric functions\<close>

lemma int_truediv_pos: "0 < b \<Longrightarrow> int_truediv a b = Inr (real a / real b)"
  by (simp add: int_truediv_def)

lemma float_truediv_eps:
  "float_truediv qb (real a / real b + eps) = Inr (qb / (real a / real b + eps))"
proof -
  have "0 \<le> real a / real b" by simp
  moreover have "0 < eps" by (simp add: eps_def)
  ultimately have "real a / real b + eps \<noteq> 0" by linarith
  then show ?thesis by (simp add: float_truediv_def)
qed


lemma di_loop_ok:
  assumes "pred_a \<noteq> []" and "pred_b \<noteq> []"
  shows "\<exists>m. di_loop pred_a pred_b labels metrics = Inr m \<and>
           fst ` set m = fst ` set metrics \<union> set labels \<and>
           (\<forall>l. map_of m l =
              (if l \<in> set labels then Some (proportion pred_b l / (proportion pred_a l + eps))
               else map_of metrics l))"
  using assms
proof (induction labels arbitrary: metrics)
  case Nil
  then show ?case by simp
next
  case (Cons label labels)
  let ?v = "proportion pred_b label / (proportion pred_a label + eps)"
  from Cons.IH [OF Cons.prems, of "AList.update label ?v metrics"]
  obtain m where m: "di_loop pred_a pred_b labels (AList.update label ?v metrics) = Inr m"
     "fst ` set m = fst ` set (AList.update label ?v metrics) \<union> set labels"
     "\<forall>l. map_of m l = (if l \<in> set labels then Some (proportion pred_b l / (proportion pred_a l + eps))
               else map_of (AList.update label ?v metrics) l)"
    by blast
  have "di_loop pred_a pred_b (label # labels) metrics = Inr m"
    using m(1) Cons.prems by (simp add: int_truediv_pos float_truediv_eps proportion_def)
  moreover have "fst ` set m = fst ` set metrics \<union> set (label # labels)"
    using m(2) by (simp add: dom_update)
  moreover have "\<forall>l. map_of m l = (if l \<in> set (label # labels) then Some (proportion pred_b l / (proportion pred_a l + eps))
               else map_of metrics l)"
    using m(3) by (simp add: update_conv')
  ultimately show ?case by blast
qed


lemma di_ok:
  assumes "pred_a \<noteq> []" and "pred_b \<noteq> []"
  shows "\<exists>m. di targ_a targ_b pred_a pred_b labels = Inr m \<and> fst ` set m = set labels \<and>
           (\<forall>l \<in> set labels. map_of m l = Some (proportion pred_b l / (proportion pred_a l + eps)))"
  using di_loop_ok [OF assms, of labels "[]"] unfolding di_def by auto


subsection \<open>The disparate impact is the ratio of group B over group A\<close>

text \<open>
  Claim C4. For two non-empty groups of predictions, \<^verbatim>\<open>_di\<close> succeeds, its result has
  exactly the given labels as keys, and the value of every label \<open>l\<close> is
  \<open>qb / (qa + 1e-8)\<close> with \<open>qa = count(pred_a == l) / |pred_a|\<close> and
  \<open>qb = count(pred_b == l) / |pred_b|\<close>: the proportion in group B over the proportion
  in group A, not the other way round.
\<close>

theorem di_ratio_b_over_a:
  assumes "pred_a \<noteq> []" and "pred_b \<noteq> []"
  shows "\<exists>m. di targ_a targ_b pred_a pred_b labels = Inr m \<and> fst ` set m = set labels \<and>
           (\<forall>l \<in> set labels. map_of m l =
              Some ((real (length [p \<leftarrow> pred_b. p = l]) / real (length pred_b)) /
                    (real (length [p \<leftarrow> pred_a. p = l]) / real (length pred_a) + 1 / 10 ^ 8)))"
  using di_ok [OF assms, of targ_a targ_b labels] by (simp add: proportion_def eps_def)

theorem di_ratio_b_over_a_witness:
  "[Num 0, Num 1] \<noteq> [] \<and> [Num 0, Num 0] \<noteq> [] \<and>
   (\<exists>m. di [Num 0, Num 1] [Num 1, Num 1] [Num 0, Num 1] [Num 0, Num 0] [Num 0] = Inr m \<and>
        fst ` set m = set [Num 0] \<and>
        (\<forall>l \<in> set [Num 0]. map_of m l = Some ((2 / 2) / (1 / 2 + 1 / 10 ^ 8))))"
  using di_ratio_b_over_a [of "[Num 0, Num 1]" "[Num 0, Num 0]" "[Num 0, Num 1]" "[Num 1, Num 1]" "[Num 0]"]
  by simp

subsection \<open>The metrics do not depend on the true targets\<close>

text \<open>
  Claim C10. \<^verbatim>\<open>_dpl\<close> and \<^verbatim>\<open>_di\<close> depend on \<open>pred_a\<close>, \<open>pred_b\<close> and
  \<open>labels\<close> only: two calls that differ in \<open>targ_a\<close> and \<open>targ_b\<close> alone give the
  same result, be it a mapping or an error.
\<close>

theorem metrics_ignore_targets:
  "dpl targ_a targ_b pred_a pred_b labels = dpl targ_a' targ_b' pred_a pred_b labels \<and>
   di targ_a targ_b pred_a pred_b labels = di targ_a' targ_b' pred_a pred_b labels"
  by (simp add: dpl_def di_def)

section \<open>Properties of the batched prediction\<close>

declare predict_loop.simps [simp del]

text \<open>
  The loop of \<^verbatim>\<open>_predict\<close> calls the prediction function on the successive batches, in
  order; the batches are not empty, hold at most \<open>batch_size\<close> rows, and their rows put
  together are the rows of the data.
\<close>

lemma ceil_div_step:
  assumes "0 < bs" and "i < n"
  shows "(n - i + bs - 1) div bs = Suc ((n - (i + bs) + bs - 1) div bs)"
proof -
  define m where "m = n - i - 1"
  have eq1: "n - i + bs - 1 = m + bs" using assms unfolding m_def by arith
  have "(m + bs) div bs = Suc (m div bs)" using assms(1) by simp
  then have lhs: "(n - i + bs - 1) div bs = Suc (m div bs)" by (simp only: eq1)
  show ?thesis
  proof (cases "i + bs \<le> n")
    case True
    then have "n - (i + bs) + bs - 1 = m" using assms unfolding m_def by arith
    then show ?thesis by (simp only: lhs)
  next
    case False
    then have "n - (i + bs) + bs - 1 = bs - 1" by arith
    moreover have "(bs - 1) div bs = 0" using assms(1) by simp
    moreover have "m < bs" using False assms unfolding m_def by arith
    then have "m div bs = 0" by simp
    ultimately show ?thesis by (simp only: lhs)
  qed
qed

lemma predict_loop_batches:
  assumes "0 < bs"
  shows "predict_loop f X n bs i =
           map (\<lambda>k. f (slice X (i + k * bs) (i + k * bs + bs))) [0..<(n - i + bs - 1) div bs]"
  using assms
proof (induction f X n bs i rule: predict_loop.induct)
  case (1 f X n bs i)
  show ?case
  proof (cases "i < n")
    case True
    have "predict_loop f X n bs i = f (slice X i (i + bs)) # predict_loop f X n bs (i + bs)"
      using True "1.prems" by (subst predict_loop.simps) simp
    also have "predict_loop f X n bs (i + bs) =
        map (\<lambda>k. f (slice X (i + bs + k * bs) (i + bs + k * bs + bs))) [0..<(n - (i + bs) + bs - 1) div bs]"
      using "1.IH" True "1.prems" by simp
    finally show ?thesis
      using ceil_div_step [OF "1.prems" True] by (simp add: map_upt_Suc add.assoc add.left_commute del: upt_Suc)
  next
    case False
    then have "n - i = 0" by simp
    then have "(n - i + bs - 1) div bs = 0" using "1.prems" by simp
    moreover have "predict_loop f X n bs i = []"
      using False by (subst predict_loop.simps) simp
    ultimately show ?thesis by simp
  qed
qed

lemma predict_loop_successive:
  assumes "0 < bs"
  shows "predict_loop f X (length (rows X)) bs 0 = map f (successive_batches X bs)"
  using predict_loop_batches [OF assms, of f X "length (rows X)" 0]
  by (simp add: successive_batches_def)

lemma concat_take_drop:
  "concat (map (\<lambda>k. take bs (drop (k * bs) xs)) [0..<m]) = take (m * bs) xs"
proof (induction m)
  case 0
  then show ?case by simp
next
  case (Suc m)
  have "take (m * bs) xs @ take bs (drop (m * bs) xs) = take (m * bs + bs) xs"
    by (simp add: take_add)
  then show ?case using Suc by (simp add: add.commute)
qed

lemma ceil_div_covers:
  assumes "0 < bs"
  shows "n \<le> ((n + bs - 1) div bs) * (bs::nat)"
proof -
  have "n + bs - 1 = ((n + bs - 1) div bs) * bs + (n + bs - 1) mod bs" by simp
  moreover have "(n + bs - 1) mod bs < bs" using assms by simp
  ultimately show ?thesis by linarith
qed

lemma ceil_div_below:
  assumes "0 < bs" and "k < (n + bs - 1) div bs"
  shows "k * bs < (n::nat)"
proof -
  have "Suc k \<le> (n + bs - 1) div bs" using assms(2) by simp
  then have "Suc k * bs \<le> ((n + bs - 1) div bs) * bs" by (rule mult_le_mono1)
  also have "\<dots> \<le> n + bs - 1" by simp
  finally show ?thesis using assms(1) by simp
qed

lemma rows_slice: "rows (slice X i j) = take (j - i) (drop i (rows X))"
  by (simp add: slice_def)

lemma columns_slice: "columns (slice X i j) = columns X"
  by (simp add: slice_def)

lemma successive_batches_cover:
  assumes "0 < bs"
  shows "concat (map rows (successive_batches X bs)) = rows X"
proof -
  have "concat (map rows (successive_batches X bs)) =
        concat (map (\<lambda>k. take bs (drop (k * bs) (rows X))) [0..<(length (rows X) + bs - 1) div bs])"
    by (simp add: successive_batches_def rows_slice comp_def)
  also have "\<dots> = take (((length (rows X) + bs - 1) div bs) * bs) (rows X)"
    by (rule concat_take_drop)
  also have "\<dots> = rows X"
    using ceil_div_covers [OF assms, of "length (rows X)"] by simp
  finally show ?thesis .
qed

lemma successive_batches_sizes:
  assumes "0 < bs" and "B \<in> set (successive_batches X bs)"
  shows "0 < length (rows B) \<and> length (rows B) \<le> bs \<and> columns B = columns X"
proof -
  from assms(2) obtain k where k: "k < (length (rows X) + bs - 1) div bs"
      and B: "B = slice X (k * bs) (k * bs + bs)"
    by (auto simp: successive_batches_def)
  have "k * bs < length (rows X)" using ceil_div_below [OF assms(1) k] .
  then show ?thesis using assms(1) by (simp add: B rows_slice columns_slice)
qed

lemma successive_batches_Nil:
  assumes "0 < bs"
  shows "successive_batches X bs = [] \<longleftrightarrow> rows X = []"
proof
  assume "successive_batches X bs = []"
  then have "concat (map rows (successive_batches X bs)) = []" by simp
  then show "rows X = []" using successive_batches_cover [OF assms] by simp
next
  assume "rows X = []"
  then show "successive_batches X bs = []" using assms by (simp add: successive_batches_def)
qed

lemma rowwise_batches:
  assumes "rowwise f g" and "0 < bs"
  shows "concat (map f (successive_batches X bs)) = map (g (columns X)) (rows X)"
proof -
  have "\<forall>B \<in> set (successive_batches X bs). f B = map (g (columns X)) (rows B)"
  proof
    fix B assume "B \<in> set (successive_batches X bs)"
    then have "columns B = columns X" using successive_batches_sizes [OF assms(2)] by blast
    then show "f B = map (g (columns X)) (rows B)" using assms(1) by (simp add: rowwise_def)
  qed
  then have "map f (successive_batches X bs) =
             map (\<lambda>B. map (g (columns X)) (rows B)) (successive_batches X bs)"
    by (meson map_eq_conv)
  then have "concat (map f (successive_batches X bs)) =
             concat (map (\<lambda>B. map (g (columns X)) (rows B)) (successive_batches X bs))"
    by (rule arg_cong)
  also have "\<dots> = map (g (columns X)) (concat (map rows (successive_batches X bs)))"
    by (simp add: map_concat comp_def)
  finally show ?thesis using successive_batches_cover [OF assms(2)] by simp
qed

lemma predict_pos:
  assumes "0 < bs"
  shows "predict f mode X (int bs) =
     (case concatenate (map f (successive_batches X bs)) of
        Inl e \<Rightarrow> Inl e
      | Inr z \<Rightarrow> if mode = ''regression'' then Inr (map Num (concat z))
                 else (case argmax_axis1 z of Inl e \<Rightarrow> Inl e | Inr idx \<Rightarrow> Inr (map (\<lambda>i. Num (real i)) idx)))"
  using assms by (simp add: predict_def predict_loop_successive Let_def)

lemma concatenate_rowwise:
  assumes "rowwise f g" and "0 < bs" and "0 < bs'"
  shows "concatenate (map f (successive_batches X bs)) = concatenate (map f (successive_batches X bs'))"
  using rowwise_batches [OF assms(1,2), of X] rowwise_batches [OF assms(1,3), of X]
    successive_batches_Nil [OF assms(2), of X] successive_batches_Nil [OF assms(3), of X]
  by (simp add: concatenate_def)


lemma predict_pos_int:
  assumes "0 < batch_size"
  shows "predict f mode X batch_size =
     (case concatenate (map f (successive_batches X (nat batch_size))) of
        Inl e \<Rightarrow> Inl e
      | Inr z \<Rightarrow> if mode = ''regression'' then Inr (map Num (concat z))
                 else (case argmax_axis1 z of Inl e \<Rightarrow> Inl e | Inr idx \<Rightarrow> Inr (map (\<lambda>i. Num (real i)) idx)))"
proof -
  have "0 < nat batch_size" and "int (nat batch_size) = batch_size" using assms by simp_all
  then show ?thesis using predict_pos [of "nat batch_size" f mode X] by simp
qed

subsection \<open>The batch size and the predictions\<close>

text \<open>
  Claim C7, as stated: for every prediction function (every HOL function is deterministic)
  the predictions for batch size 1 and for batch size 64 are the same. This fails for a
  function whose scores depend on the batch it is given: below, the first score of every row
  is the number of rows of the batch, so that class 1 wins in batches of one row and class 0
  (the first maximum) in a batch of two rows.
\<close>

theorem predict_batch_size_counterexample:
  "predict (\<lambda>B. map (\<lambda>r. [real (length (rows B)), 2]) (rows B)) ''classification''
       \<lparr>columns = [''x''], rows = [[Num 0], [Num 5]], target_column = None\<rparr> 1 = Inr [Num 1, Num 1] \<and>
   predict (\<lambda>B. map (\<lambda>r. [real (length (rows B)), 2]) (rows B)) ''classification''
       \<lparr>columns = [''x''], rows = [[Num 0], [Num 5]], target_column = None\<rparr> 64 = Inr [Num 0, Num 0]"
  by (simp add: predict_pos_int successive_batches_def slice_def concatenate_def argmax_axis1_def argmax_def)

text \<open>
  Claim C7, amended: for every prediction function that scores each row on its own (the
  output for a batch is the list of the outputs for its rows), \<^verbatim>\<open>_predict\<close> gives the same
  result, predictions or error, for any two positive batch sizes; in particular for 1 and 64.
\<close>

theorem predict_batch_size_invariant:
  assumes "rowwise f g" and "0 < batch_size" and "0 < batch_size'"
  shows "predict f mode X batch_size = predict f mode X batch_size'"
proof -
  have "0 < nat batch_size" and "0 < nat batch_size'" using assms(2,3) by simp_all
  then have "concatenate (map f (successive_batches X (nat batch_size))) =
             concatenate (map f (successive_batches X (nat batch_size')))"
    using concatenate_rowwise [OF assms(1)] by blast
  then show ?thesis by (simp add: predict_pos_int assms(2,3))
qed

theorem predict_batch_size_invariant_witness:
  "rowwise (\<lambda>B. map (\<lambda>r. [0, 1]) (rows B)) (\<lambda>c r. [0, 1]) \<and> (0::int) < 1 \<and> (0::int) < 64 \<and>
   predict (\<lambda>B. map (\<lambda>r. [0, 1]) (rows B)) ''classification''
       \<lparr>columns = [''x''], rows = [[Num 0], [Num 5]], target_column = None\<rparr> 1 =
   predict (\<lambda>B. map (\<lambda>r. [0, 1]) (rows B)) ''classification''
       \<lparr>columns = [''x''], rows = [[Num 0], [Num 5]], target_column = None\<rparr> 64"
proof -
  have r: "rowwise (\<lambda>B. map (\<lambda>r. [0, 1]) (rows B)) (\<lambda>c r. [0, 1])"
    by (simp add: rowwise_def)
  show ?thesis
    using r predict_batch_size_invariant [OF r, of 1 64 "''classification''"
        "\<lparr>columns = [''x''], rows = [[Num 0], [Num 5]], target_column = None\<rparr>"]
    by simp
qed

subsection \<open>How the cached predictions are computed\<close>
















section \<open>Properties of the group selection\<close>

text \<open>
  After the pass over the column, the dictionary \<^verbatim>\<open>feat_value2idx\<close> has the values of the
  column as its keys, each once, and maps a value to the rows that hold it, in increasing
  order.
\<close>

lemma index_step:
  assumes i: "i < length column"
    and dist: "distinct (map fst d)"
    and keys: "fst ` set d = set (take i column)"
    and vals: "\<forall>k l. map_of d k = Some l \<longrightarrow> l = [j \<leftarrow> [0..<i]. column ! j = k]"
  shows "distinct (map fst (AList.update (column ! i) (getitem_default d (column ! i) @ [i]) d)) \<and>
         fst ` set (AList.update (column ! i) (getitem_default d (column ! i) @ [i]) d) =
           set (take (Suc i) column) \<and>
         (\<forall>k l. map_of (AList.update (column ! i) (getitem_default d (column ! i) @ [i]) d) k = Some l \<longrightarrow>
                l = [j \<leftarrow> [0..<Suc i]. column ! j = k])"
proof -
  let ?feat = "column ! i"
  let ?d = "AList.update ?feat (getitem_default d ?feat @ [i]) d"
  have a: "distinct (map fst ?d)" using dist by (rule distinct_update)
  have b: "fst ` set ?d = set (take (Suc i) column)"
    using keys i by (simp add: dom_update take_Suc_conv_app_nth)
  have old: "getitem_default d ?feat = [j \<leftarrow> [0..<i]. column ! j = ?feat]"
  proof (cases "map_of d ?feat")
    case None
    then have "?feat \<notin> fst ` set d" by (simp add: map_of_eq_None_iff)
    then have "?feat \<notin> set (take i column)" using keys by simp
    then have "\<forall>j < i. column ! j \<noteq> ?feat"
      using i by (auto simp: in_set_conv_nth)
    then have "[j \<leftarrow> [0..<i]. column ! j = ?feat] = []" by (auto simp: filter_empty_conv)
    then show ?thesis using None by (simp add: getitem_default_def)
  next
    case (Some l)
    then show ?thesis using vals by (simp add: getitem_default_def)
  qed
  have c: "\<forall>k l. map_of ?d k = Some l \<longrightarrow> l = [j \<leftarrow> [0..<Suc i]. column ! j = k]"
  proof (intro allI impI)
    fix k l assume kl: "map_of ?d k = Some l"
    show "l = [j \<leftarrow> [0..<Suc i]. column ! j = k]"
    proof (cases "k = ?feat")
      case True
      then have "l = getitem_default d ?feat @ [i]" using kl by (simp add: update_conv')
      then show ?thesis using old True by simp
    next
      case False
      then have "map_of d k = Some l" using kl by (simp add: update_conv')
      then have "l = [j \<leftarrow> [0..<i]. column ! j = k]" using vals by blast
      then show ?thesis using False by simp
    qed
  qed
  show ?thesis using a b c by blast
qed

lemma index_loop:
  assumes "i \<le> length column"
    and "distinct (map fst d)"
    and "fst ` set d = set (take i column)"
    and "\<forall>k l. map_of d k = Some l \<longrightarrow> l = [j \<leftarrow> [0..<i]. column ! j = k]"
  shows "distinct (map fst (feat_value2idx_loop i (drop i column) d)) \<and>
         fst ` set (feat_value2idx_loop i (drop i column) d) = set column \<and>
         (\<forall>k l. map_of (feat_value2idx_loop i (drop i column) d) k = Some l \<longrightarrow>
                l = [j \<leftarrow> [0..<length column]. column ! j = k])"
  using assms
proof (induction "length column - i" arbitrary: i d)
  case 0
  then have "i = length column" by simp
  then show ?case using "0.prems" by simp
next
  case (Suc n)
  then have i: "i < length column" by simp
  have dr: "drop i column = column ! i # drop (Suc i) column"
    using i by (simp add: Cons_nth_drop_Suc)
  let ?d = "AList.update (column ! i) (getitem_default d (column ! i) @ [i]) d"
  have n: "n = length column - Suc i" using Suc.hyps(2) by simp
  have le: "Suc i \<le> length column" using i by simp
  note st = index_step [OF i Suc.prems(2) Suc.prems(3) Suc.prems(4)]
  from Suc.hyps(1) [OF n le st [THEN conjunct1] st [THEN conjunct2, THEN conjunct1]
      st [THEN conjunct2, THEN conjunct2]]
  show ?case by (simp add: dr)
qed

lemma feat_value2idx:
  "distinct (map fst (feat_value2idx_loop 0 column [])) \<and>
   fst ` set (feat_value2idx_loop 0 column []) = set column \<and>
   (\<forall>k l. map_of (feat_value2idx_loop 0 column []) k = Some l \<longrightarrow>
          l = [j \<leftarrow> [0..<length column]. column ! j = k])"
  using index_loop [of 0 column "[]"] by simp

lemma feat_value2idx_lookup:
  "map_of (feat_value2idx_loop 0 column []) v =
     (if v \<in> set column then Some [j \<leftarrow> [0..<length column]. column ! j = v] else None)"
proof (cases "v \<in> set column")
  case True
  then have "v \<in> fst ` set (feat_value2idx_loop 0 column [])" using feat_value2idx by blast
  then obtain l where l: "map_of (feat_value2idx_loop 0 column []) v = Some l"
    by (metis map_of_eq_None_iff not_None_eq)
  then have "l = [j \<leftarrow> [0..<length column]. column ! j = v]" using feat_value2idx by blast
  then show ?thesis using l True by simp
next
  case False
  then have "v \<notin> fst ` set (feat_value2idx_loop 0 column [])" using feat_value2idx by blast
  then show ?thesis using False by (simp add: map_of_eq_None_iff)
qed


subsection \<open>One value against the rest\<close>



section \<open>Properties of \<^verbatim>\<open>explain\<close>\<close>

text \<open>The index of the scenario's feature column.\<close>

lemma scenario_index:
  "feat_value2idx_loop 0 [Str ''X'', Str ''X'', Str ''Y'', Str ''Y''] [] =
     [(Str ''X'', [0, 1]), (Str ''Y'', [2, 3])]"
  by (simp add: getitem_default_def)

subsection \<open>Unknown feature values\<close>

text \<open>
  The loop of assertions stops at the first value that is not a key of the index, and the
  keys of the index are the values of the column.
\<close>

lemma assert_feats_first:
  "assert_feats feats d =
     (case [v \<leftarrow> feats. map_of d v = None] of
        [] \<Rightarrow> Inr ()
      | v # rest \<Rightarrow> Inl (AssertionError (FeatureDoesNotExist v)))"
  by (induction feats) simp_all

lemma check_features_two_groups:
  "check_features (Groups [group_1, group_2]) d =
     (case [v \<leftarrow> group_1 @ group_2. map_of d v = None] of
        [] \<Rightarrow> Inr ()
      | v # rest \<Rightarrow> Inl (AssertionError (FeatureDoesNotExist v)))"
  by (simp add: assert_feats_first split: list.splits)

lemma feat_value2idx_None:
  "(map_of (feat_value2idx_loop 0 column []) v = None) = (v \<notin> set column)"
  by (simp add: feat_value2idx_lookup)

lemma explain_res_checked:
  assumes "map_of (self_data self) feature_column = Some column"
    and "check_features fvg (feat_value2idx_loop 0 column []) = Inl e"
    and "case fvg of Groups gs \<Rightarrow> length gs = 2 | Single v \<Rightarrow> True"
  shows "explain_res self feature_column fvg tvt = Inl e"
  using assms by (cases fvg) (simp_all add: explain_res_def)

text \<open>
  Claim C6. For an existing feature column: a single feature value that does not occur in
  the column, and a pair of value lists of which some value does not occur in the column,
  make \<^verbatim>\<open>explain\<close> fail with the assertion \<^verbatim>\<open>Feature ... does not exist\<close> (the
  specification's \<open>UnknownFeatureValue\<close>), which names the offending value; for two lists
  it is the first such value in the order of the first list followed by the second. The
  failure does not depend on the targets, predictions or labels: it comes before the groups
  are formed and the metrics are called, nothing is printed and nothing is returned.
\<close>

theorem explain_unknown_feature_value:
  assumes "map_of (self_data self) feature_column = Some column"
  shows "(v \<notin> set column \<longrightarrow>
            explain self feature_column (Single v) labels =
              Inl (AssertionError (FeatureDoesNotExist v))) \<and>
         (\<not> set (group_1 @ group_2) \<subseteq> set column \<longrightarrow>
            explain self feature_column (Groups [group_1, group_2]) labels =
              Inl (AssertionError (FeatureDoesNotExist (hd [u \<leftarrow> group_1 @ group_2. u \<notin> set column]))))"
proof (intro conjI impI)
  assume "v \<notin> set column"
  then have "check_features (Single v) (feat_value2idx_loop 0 column []) =
               Inl (AssertionError (FeatureDoesNotExist v))"
    by (simp add: feat_value2idx_None)
  then have "explain_res self feature_column (Single v) labels =
               Inl (AssertionError (FeatureDoesNotExist v))"
    using explain_res_checked [OF assms] by simp
  then show "explain self feature_column (Single v) labels =
               Inl (AssertionError (FeatureDoesNotExist v))"
    by (simp add: explain_def)
next
  assume "\<not> set (group_1 @ group_2) \<subseteq> set column"
  then have "[u \<leftarrow> group_1 @ group_2. u \<notin> set column] \<noteq> []"
    by (auto simp: filter_empty_conv)
  then obtain u rest where u: "[u \<leftarrow> group_1 @ group_2. u \<notin> set column] = u # rest"
    by (cases "[u \<leftarrow> group_1 @ group_2. u \<notin> set column]") auto
  have "check_features (Groups [group_1, group_2]) (feat_value2idx_loop 0 column []) =
          (case [u \<leftarrow> group_1 @ group_2. u \<notin> set column] of
             [] \<Rightarrow> Inr ()
           | v # rest \<Rightarrow> Inl (AssertionError (FeatureDoesNotExist v)))"
    by (simp only: check_features_two_groups feat_value2idx_None)
  then have "check_features (Groups [group_1, group_2]) (feat_value2idx_loop 0 column []) =
          Inl (AssertionError (FeatureDoesNotExist u))"
    by (simp only: u list.case)
  then have "explain_res self feature_column (Groups [group_1, group_2]) labels =
               Inl (AssertionError (FeatureDoesNotExist u))"
    using explain_res_checked [OF assms] by simp
  then show "explain self feature_column (Groups [group_1, group_2]) labels =
      Inl (AssertionError (FeatureDoesNotExist (hd [u \<leftarrow> group_1 @ group_2. u \<notin> set column])))"
    by (simp only: u list.sel explain_def sum.case)
qed

theorem explain_unknown_feature_value_witness:
  "map_of (self_data scenario_analyzer) ''feat'' = Some [Str ''X'', Str ''X'', Str ''Y'', Str ''Y''] \<and>
   Str ''Z'' \<notin> set [Str ''X'', Str ''X'', Str ''Y'', Str ''Y''] \<and>
   explain scenario_analyzer ''feat'' (Single (Str ''Z'')) NoLabels =
     Inl (AssertionError (FeatureDoesNotExist (Str ''Z''))) \<and>
   explain scenario_analyzer ''feat'' (Groups [[Str ''X''], [Str ''Z'', Str ''W'']]) NoLabels =
     Inl (AssertionError (FeatureDoesNotExist (Str ''Z'')))"
proof -
  have h: "map_of (self_data scenario_analyzer) ''feat'' = Some [Str ''X'', Str ''X'', Str ''Y'', Str ''Y'']"
    by (simp add: scenario_analyzer_def)
  show ?thesis
    using h explain_unknown_feature_value [OF h, of "Str ''Z''" NoLabels "[Str ''X'']" "[Str ''Z'', Str ''W'']"]
    by simp
qed

subsection \<open>Empty groups\<close>

lemma dpl_loop_empty:
  assumes "pred_a = [] \<or> pred_b = []"
  shows "dpl_loop pred_a pred_b (label # labels) metrics = Inl ZeroDivisionError"
  using assms by (auto simp: int_truediv_def split: sum.splits)

lemma dpl_empty:
  assumes "pred_a = [] \<or> pred_b = []"
  shows "dpl targ_a targ_b pred_a pred_b labels =
           (if labels = [] then Inr [] else Inl ZeroDivisionError)"
proof (cases labels)
  case Nil
  then show ?thesis by (simp add: dpl_def)
next
  case (Cons label rest)
  then show ?thesis using dpl_loop_empty [OF assms] by (simp add: dpl_def)
qed

text \<open>
  Claim C2, as stated: with an empty group the metric fails with an explicit
  \<open>EmptyGroup\<close> error, or has a defined value, and no raw division by zero gets through.
  The source has no such guard: \<^verbatim>\<open>na / len(pred_a)\<close> raises Python's
  \<^verbatim>\<open>ZeroDivisionError\<close>, from \<^verbatim>\<open>_dpl\<close> and through \<^verbatim>\<open>explain\<close>.
\<close>

theorem empty_group_counterexample:
  "dpl [Num 0] ([] :: pyval list) [Num 1] ([] :: pyval list) [Num 1] = Inl ZeroDivisionError \<and>
   explain scenario_analyzer ''feat'' (Groups [[Str ''X''], []]) NoLabels = Inl ZeroDivisionError"
  by (simp add: dpl_def int_truediv_def explain_def explain_res_def scenario_index scenario_analyzer_def
        get_labels_def fancy_index_def getitem_default_def)

text \<open>
  Claim C2, amended: if group A or group B is empty, \<^verbatim>\<open>_dpl\<close> fails with the raw
  \<^verbatim>\<open>ZeroDivisionError\<close> as soon as there is a label to evaluate (and returns the empty
  mapping when there is none); and \<^verbatim>\<open>explain\<close> fails with \<^verbatim>\<open>ZeroDivisionError\<close>
  whenever its checks pass, a resolved group has no rows and the label list is not empty.
\<close>

theorem empty_group_zero_division:
  assumes "pred_a = [] \<or> pred_b = []"
  shows "dpl targ_a targ_b pred_a pred_b labels =
           (if labels = [] then Inr [] else Inl ZeroDivisionError) \<and>
         (\<forall>self feature_column fvg tvt column group_a group_b.
            map_of (self_data self) feature_column = Some column \<and>
            (case fvg of Groups gs \<Rightarrow> length gs = 2 | Single v \<Rightarrow> True) \<and>
            check_features fvg (feat_value2idx_loop 0 column []) = Inr () \<and>
            groups fvg (feat_value2idx_loop 0 column []) = (group_a, group_b) \<and>
            get_labels self group_a group_b tvt = Inr (targ_a, targ_b, pred_a, pred_b, labels) \<and>
            labels \<noteq> []
            \<longrightarrow> explain self feature_column fvg tvt = Inl ZeroDivisionError)"
proof (intro conjI allI impI)
  show "dpl targ_a targ_b pred_a pred_b labels =
           (if labels = [] then Inr [] else Inl ZeroDivisionError)"
    using dpl_empty [OF assms] .
next
  fix self feature_column fvg tvt column group_a group_b
  assume h: "map_of (self_data self) feature_column = Some column \<and>
            (case fvg of Groups gs \<Rightarrow> length gs = 2 | Single v \<Rightarrow> True) \<and>
            check_features fvg (feat_value2idx_loop 0 column []) = Inr () \<and>
            groups fvg (feat_value2idx_loop 0 column []) = (group_a, group_b) \<and>
            get_labels self group_a group_b tvt = Inr (targ_a, targ_b, pred_a, pred_b, labels) \<and>
            labels \<noteq> []"
  then have d: "dpl targ_a targ_b pred_a pred_b labels = Inl ZeroDivisionError"
    using dpl_empty [OF assms, of targ_a targ_b labels] by simp
  have "explain_res self feature_column fvg tvt = Inl ZeroDivisionError"
    using h d by (cases fvg) (simp_all add: explain_res_def)
  then show "explain self feature_column fvg tvt = Inl ZeroDivisionError"
    by (simp add: explain_def)
qed

theorem empty_group_zero_division_witness:
  "(([] :: pyval list) = [] \<or> [Num 0, Num 1] = ([] :: pyval list)) \<and>
   dpl ([] :: real list) [0, 1] ([] :: pyval list) [Num 0, Num 1] [Num 1] = Inl ZeroDivisionError \<and>
   explain scenario_analyzer ''feat'' (Groups [[], [Str ''Y'']]) (OneLabel (Num 1)) = Inl ZeroDivisionError"
proof -
  have h: "([] :: pyval list) = [] \<or> [Num 0, Num 1] = ([] :: pyval list)" by simp
  note t = empty_group_zero_division [OF h, of "[] :: real list" "[0, 1]" "[Num 1]"]
  have a: "dpl ([] :: real list) [0, 1] ([] :: pyval list) [Num 0, Num 1] [Num 1] = Inl ZeroDivisionError"
    using t [THEN conjunct1] by simp
  have p: "map_of (self_data scenario_analyzer) ''feat'' = Some [Str ''X'', Str ''X'', Str ''Y'', Str ''Y''] \<and>
      (case Groups [[], [Str ''Y'']] of Groups gs \<Rightarrow> length gs = 2 | Single v \<Rightarrow> True) \<and>
      check_features (Groups [[], [Str ''Y'']]) (feat_value2idx_loop 0 [Str ''X'', Str ''X'', Str ''Y'', Str ''Y''] []) = Inr () \<and>
      groups (Groups [[], [Str ''Y'']]) (feat_value2idx_loop 0 [Str ''X'', Str ''X'', Str ''Y'', Str ''Y''] []) = ([], [2, 3]) \<and>
      get_labels scenario_analyzer [] [2, 3] (OneLabel (Num 1)) = Inr ([], [0, 1], [], [Num 0, Num 1], [Num 1]) \<and>
      [Num 1] \<noteq> []"
    by (simp add: scenario_index scenario_analyzer_def get_labels_def fancy_index_def getitem_default_def)
  have b: "explain scenario_analyzer ''feat'' (Groups [[], [Str ''Y'']]) (OneLabel (Num 1)) = Inl ZeroDivisionError"
    using t [THEN conjunct2, rule_format, OF p] .
  show ?thesis using h a b by blast
qed

subsection \<open>What \<^verbatim>\<open>explain\<close> returns\<close>

lemma scenario_labels:
  "map (\<lambda>i. Num (of_int i)) (list_of_set (astype_int scenario_targets)) = [Num 0, Num 1]"
  by (simp add: list_of_set_def astype_int_def int64_of_def scenario_targets_def)

lemma scenario_init:
  "init scenario_data (Some scenario_predict) ''classification'' (Some scenario_targets) None =
     Inr scenario_analyzer"
  by (simp add: init_def resolve_targets_def predict_pos_int successive_batches_def slice_def
       scenario_labels scenario_analyzer_def)
     (simp add: scenario_data_def scenario_predict_def scenario_targets_def
       scenario_labels [unfolded scenario_targets_def] concatenate_def argmax_axis1_def argmax_def to_pd_def column_values_def upt_rec)

lemma scenario_explain:
  "explain scenario_analyzer ''feat'' (Single (Str ''X'')) NoLabels =
     Inr \<lparr>printed = [[(''DPL'', [(Num 0, 0), (Num 1, 0)]),
                       (''DI'', [(Num 0, (1 / 2) / (1 / 2 + 1 / 10 ^ 8)),
                                 (Num 1, (1 / 2) / (1 / 2 + 1 / 10 ^ 8))])]],
          returned = None\<rparr>"
  by (simp add: explain_def explain_res_def scenario_index scenario_analyzer_def
        get_labels_def fancy_index_def getitem_default_def dpl_def di_def int_truediv_def
        float_truediv_def eps_def)

text \<open>
  Claim C1 says that \<^verbatim>\<open>explain\<close> returns the mapping from metric name to the mapping from
  label to score. In the source the mapping \<^verbatim>\<open>res\<close> is built and printed, and the body
  ends there: every successful call returns \<^verbatim>\<open>None\<close>, and the mapping reaches the caller
  only as printed text.
\<close>

theorem explain_returns_none:
  assumes "explain self feature_column feature_value_or_groups target_value_or_threshold = Inr out"
  shows "returned out = None \<and>
         (\<exists>res. explain_res self feature_column feature_value_or_groups target_value_or_threshold = Inr res \<and>
                printed out = [res])"
  using assms by (auto simp: explain_def split: sum.splits)

theorem explain_returns_none_witness:
  "init scenario_data (Some scenario_predict) ''classification'' (Some scenario_targets) None =
     Inr scenario_analyzer \<and>
   explain scenario_analyzer ''feat'' (Single (Str ''X'')) NoLabels =
     Inr \<lparr>printed = [[(''DPL'', [(Num 0, 0), (Num 1, 0)]),
                       (''DI'', [(Num 0, (1 / 2) / (1 / 2 + 1 / 10 ^ 8)),
                                 (Num 1, (1 / 2) / (1 / 2 + 1 / 10 ^ 8))])]],
          returned = None\<rparr> \<and>
   returned \<lparr>printed = [[(''DPL'', [(Num 0, 0), (Num 1, 0)]),
                       (''DI'', [(Num 0, (1 / 2) / (1 / 2 + 1 / 10 ^ 8)),
                                 (Num 1, (1 / 2) / (1 / 2 + 1 / 10 ^ 8))])]],
          returned = None\<rparr> = None"
  using scenario_init scenario_explain explain_returns_none [OF scenario_explain] by blast

section \<open>A constant classifier\<close>









section \<open>The constructor without \<^verbatim>\<open>training_targets\<close>\<close>

lemma resolve_targets_column:
  assumes "target_column training_data = Some c" and "c \<noteq> []"
    and "map_of (to_pd training_data) c = Some series"
  shows "resolve_targets training_data None = Inl ValueError"
  using assms by (simp add: resolve_targets_def series_bool_def)

lemma resolve_targets_no_column:
  assumes "target_column training_data = None \<or> target_column training_data = Some []"
  shows "resolve_targets training_data None = Inl (AssertionError NoTargetColumn)"
  using assms by (auto simp: resolve_targets_def)

text \<open>
  Claim C3 says that, without \<^verbatim>\<open>training_targets\<close>, the constructor fails when there is no
  target column, fails when the target column is not of an integer or float type, and
  otherwise takes the targets from the column and removes the column from the features.
  The first part holds: the assertion \<^verbatim>\<open>training_data has no label/target column\<close> is
  raised. The rest does not: the second assertion tests the column itself, not its
  \<^verbatim>\<open>dtype\<close>, for membership in the list of types, and that test raises for every column, so
  a valid integer column is never extracted and the assertion's own message is never given.
  (The model follows pandas, where the truth value of the element-wise comparison raises
  \<^verbatim>\<open>ValueError\<close>. From NumPy 1.24 on, building the list raises \<^verbatim>\<open>AttributeError\<close> before
  that, as \<^verbatim>\<open>np.int\<close> and \<^verbatim>\<open>np.float\<close> no longer exist. A column is never equal to a
  type, so in no case can the test succeed.)
\<close>

theorem target_column_check_raises:
  assumes "mode = ''classification'' \<or> mode = ''regression''"
  shows "(target_column training_data = None \<or> target_column training_data = Some [] \<longrightarrow>
            init training_data (Some f) mode None batch_size = Inl (AssertionError NoTargetColumn)) \<and>
         (\<forall>c series.
            target_column training_data = Some c \<and> c \<noteq> [] \<and>
            map_of (to_pd training_data) c = Some series \<longrightarrow>
            init training_data (Some f) mode None batch_size = Inl ValueError)"
proof (intro conjI allI impI)
  assume "target_column training_data = None \<or> target_column training_data = Some []"
  then show "init training_data (Some f) mode None batch_size = Inl (AssertionError NoTargetColumn)"
    using assms resolve_targets_no_column [of training_data] by (auto simp: init_def)
next
  fix c series
  assume "target_column training_data = Some c \<and> c \<noteq> [] \<and>
            map_of (to_pd training_data) c = Some series"
  then have "resolve_targets training_data None = Inl ValueError"
    using resolve_targets_column by blast
  then show "init training_data (Some f) mode None batch_size = Inl ValueError"
    using assms by (auto simp: init_def)
qed

theorem target_column_check_raises_witness:
  "(''classification'' = ''classification'' \<or> ''classification'' = ''regression'') \<and>
   target_column (scenario_data\<lparr>target_column := Some ''score''\<rparr>) = Some ''score'' \<and>
   ''score'' \<noteq> [] \<and>
   map_of (to_pd (scenario_data\<lparr>target_column := Some ''score''\<rparr>)) ''score'' =
     Some [Num 0, Num 1, Num 0, Num 1] \<and>
   init (scenario_data\<lparr>target_column := Some ''score''\<rparr>) (Some scenario_predict)
     ''classification'' None None = Inl ValueError \<and>
   target_column scenario_data = None \<and>
   init scenario_data (Some scenario_predict) ''classification'' None None =
     Inl (AssertionError NoTargetColumn)"
proof -
  let ?X = "scenario_data\<lparr>target_column := Some ''score''\<rparr>"
  have h1: "''classification'' = ''classification'' \<or> ''classification'' = ''regression''" by simp
  have h2: "target_column ?X = Some ''score'' \<and> ''score'' \<noteq> [] \<and>
            map_of (to_pd ?X) ''score'' = Some [Num 0, Num 1, Num 0, Num 1]"
    by (simp add: to_pd_def column_values_def scenario_data_def upt_rec)
  have h3: "target_column scenario_data = None" by (simp add: scenario_data_def)
  note t1 = target_column_check_raises [OF h1, of ?X scenario_predict None, THEN conjunct2,
      rule_format, OF h2]
  note t2 = target_column_check_raises [OF h1, of scenario_data scenario_predict None,
      THEN conjunct1, rule_format, OF disjI1, OF h3]
  show ?thesis using h1 h2 h3 t1 t2 by blast
qed

section \<open>The cached predictions\<close>








end
